theory Spec2Isabelle
  imports Complex_Main "HOL-Library.Word"
begin

unbundle bit_operations_syntax

text \<open>
  A shallow embedding of parts of the globe's quad-tree terrain engine: the tile
  index arithmetic, the height decoding and the elevation fallback of the RGB terrain
  provider; the lon-lat split of an entity-collection node; the camera's
  projected-size metric; and, of the planet, the memory clear of the pre-draw step,
  the equal-zoom correction pass and the picking of a point from a screen pixel. The
  transition-opacity state machine follows the specification. The definitions come
  first, section by section; the properties follow.
\<close>

section \<open>JavaScript numbers\<close>

text \<open>
  A finite JavaScript number is read as a real (rounding of IEEE doubles is not
  modelled, and the two zeros are one). The operations that can leave the finite
  numbers do so explicitly: a division by zero gives an infinity or NaN, as it does
  in the source language, instead of HOL's \<open>x / 0 = 0\<close>.
\<close>

datatype jsnum = Num real | PosInf | NegInf | NaN

fun js_div :: "jsnum \<Rightarrow> jsnum \<Rightarrow> jsnum" where
  "js_div NaN _ = NaN"
| "js_div _ NaN = NaN"
| "js_div (Num a) (Num b) =
     (if b = 0 then (if a > 0 then PosInf else if a < 0 then NegInf else NaN)
      else Num (a / b))"
| "js_div (Num a) PosInf = Num 0"
| "js_div (Num a) NegInf = Num 0"
| "js_div PosInf (Num b) = (if b < 0 then NegInf else PosInf)"
| "js_div NegInf (Num b) = (if b < 0 then PosInf else NegInf)"
| "js_div _ _ = NaN"

fun js_mul :: "jsnum \<Rightarrow> jsnum \<Rightarrow> jsnum" where
  "js_mul NaN _ = NaN"
| "js_mul _ NaN = NaN"
| "js_mul (Num a) (Num b) = Num (a * b)"
| "js_mul (Num a) PosInf = (if a = 0 then NaN else if a > 0 then PosInf else NegInf)"
| "js_mul (Num a) NegInf = (if a = 0 then NaN else if a > 0 then NegInf else PosInf)"
| "js_mul PosInf (Num b) = (if b = 0 then NaN else if b > 0 then PosInf else NegInf)"
| "js_mul NegInf (Num b) = (if b = 0 then NaN else if b > 0 then NegInf else PosInf)"
| "js_mul PosInf PosInf = PosInf"
| "js_mul NegInf NegInf = PosInf"
| "js_mul _ _ = NegInf"

text \<open>\<open>Math.atan\<close>: the infinities go to \<open>\<plusminus>\<pi>/2\<close>.\<close>

fun js_atan :: "jsnum \<Rightarrow> jsnum" where
  "js_atan (Num a) = Num (arctan a)"
| "js_atan PosInf = Num (pi / 2)"
| "js_atan NegInf = Num (- (pi / 2))"
| "js_atan NaN = NaN"

text \<open>The comparison \<open><\<close>: false as soon as one side is NaN.\<close>

fun js_lt :: "jsnum \<Rightarrow> jsnum \<Rightarrow> bool" where
  "js_lt (Num a) (Num b) = (a < b)"
| "js_lt (Num a) PosInf = True"
| "js_lt NegInf (Num b) = True"
| "js_lt NegInf PosInf = True"
| "js_lt _ _ = False"

text \<open>
  The shift \<open>a << n\<close> on integer operands: the left operand is taken as a signed
  32-bit integer, the shift count is the right operand's low five bits, and the
  result is read back as a signed 32-bit integer.
\<close>

definition js_shl :: "int \<Rightarrow> int \<Rightarrow> int" where
  "js_shl a n =
     sint (push_bit (unat ((word_of_int n :: 32 word) AND 31)) (word_of_int a :: 32 word))"


section \<open>Tile index arithmetic of the RGB terrain provider\<close>

text \<open>
  \<open>getTileOffset\<close> and \<open>getChildTileIndex\<close>. Tile coordinates and zoom levels are
  integers; the third component of \<open>getTileOffset\<close> is the quotient \<open>1.0 / dz2\<close>.
\<close>

definition getTileOffset ::
  "int \<Rightarrow> int \<Rightarrow> int \<Rightarrow> int \<Rightarrow> int \<Rightarrow> int \<Rightarrow> int \<times> int \<times> jsnum" where
  "getTileOffset currentTileX currentTileY currentTileZoom parentTileX parentTileY parentTileZoom =
     (let dz2 = js_shl 2 (currentTileZoom - parentTileZoom - 1)
      in (currentTileX - dz2 * parentTileX,
          currentTileY - dz2 * parentTileY,
          js_div (Num 1) (Num (of_int dz2))))"

definition getChildTileIndex ::
  "int \<Rightarrow> int \<Rightarrow> int \<Rightarrow> int \<Rightarrow> int \<Rightarrow> int \<times> int \<times> int" where
  "getChildTileIndex currentParentTileX currentParentTileY currentParentTileZoom
       childOffsetX childOffsetY =
     (currentParentTileX * 2 + childOffsetX,
      currentParentTileY * 2 + childOffsetY,
      currentParentTileZoom + 1)"


section \<open>Height decoding\<close>

record rgbTerrain =
  minHeight :: real
  resolution :: real

definition rgb2Height :: "rgbTerrain \<Rightarrow> real \<Rightarrow> real \<Rightarrow> real \<Rightarrow> real" where
  "rgb2Height t r g b =
     (if r = 255 then minHeight t
      else minHeight t + resolution t * (r * 256 * 256 + g * 256 + b))"


section \<open>Geodetic coordinates, extents and the lon-lat node split\<close>

record lonLat =
  lon :: real
  lat :: real
  height :: real

text \<open>\<open>new LonLat(lon, lat)\<close>: the height defaults to zero.\<close>

definition LonLat :: "real \<Rightarrow> real \<Rightarrow> lonLat" where
  "LonLat a b = \<lparr>lon = a, lat = b, height = 0\<rparr>"

record extent =
  southWest :: lonLat
  northEast :: lonLat

definition Extent :: "lonLat \<Rightarrow> lonLat \<Rightarrow> extent" where
  "Extent sw ne = \<lparr>southWest = sw, northEast = ne\<rparr>"

text \<open>
  Modelled from the spec: the class \<open>Extent\<close> is not among the sources. It is an
  axis-aligned lon/lat rectangle between its south-west and north-east corners,
  with width and height derived from them; \<open>isInside\<close> is membership in the closed
  rectangle.
\<close>

definition getWidth :: "extent \<Rightarrow> real" where
  "getWidth e = lon (northEast e) - lon (southWest e)"

definition getHeight :: "extent \<Rightarrow> real" where
  "getHeight e = lat (northEast e) - lat (southWest e)"

definition isInside :: "extent \<Rightarrow> lonLat \<Rightarrow> bool" where
  "isInside e p \<longleftrightarrow>
     lon (southWest e) \<le> lon p \<and> lon p \<le> lon (northEast e) \<and>
     lat (southWest e) \<le> lat p \<and> lat p \<le> lat (northEast e)"

datatype partId = NW | NE | SW | SE | ROOT

text \<open>
  A node of the entity-collection quad tree: its quadrant, its extent and its zoom.
  \<open>createChildNodes\<close> stores four new nodes in \<open>childNodes\<close> under the indices
  \<open>NW\<close>, \<open>NE\<close>, \<open>SW\<close> and \<open>SE\<close>; the model returns that table.
\<close>

record node =
  partId :: partId
  extent :: extent
  zoom :: int

definition createChildNodes :: "node \<Rightarrow> (partId \<rightharpoonup> node)" where
  "createChildNodes this =
     (let ext = extent this;
          size_x = getWidth ext * 0.5;
          size_y = getHeight ext * 0.5;
          ne = northEast ext;
          sw = southWest ext;
          c = LonLat (lon sw + size_x) (lat sw + size_y);
          z = zoom this + 1
      in [NW \<mapsto> \<lparr>partId = NW,
                   extent = Extent (LonLat (lon sw) (lat sw + size_y))
                                   (LonLat (lon sw + size_x) (lat ne)),
                   zoom = z\<rparr>,
          NE \<mapsto> \<lparr>partId = NE, extent = Extent c (LonLat (lon ne) (lat ne)), zoom = z\<rparr>,
          SW \<mapsto> \<lparr>partId = SW, extent = Extent (LonLat (lon sw) (lat sw)) c, zoom = z\<rparr>,
          SE \<mapsto> \<lparr>partId = SE,
                   extent = Extent (LonLat (lon sw + size_x) (lat sw))
                                   (LonLat (lon ne) (lat sw + size_y)),
                   zoom = z\<rparr>])"

text \<open>The extent of the child stored under a quadrant index.\<close>

definition childExtent :: "node \<Rightarrow> partId \<Rightarrow> extent" where
  "childExtent this q = extent (the (createChildNodes this q))"

text \<open>The midpoint of an extent, as \<open>createChildNodes\<close> computes it.\<close>

definition centre :: "extent \<Rightarrow> lonLat" where
  "centre e = LonLat (lon (southWest e) + getWidth e * 0.5) (lat (southWest e) + getHeight e * 0.5)"


section \<open>Vectors\<close>

datatype vec3 = Vec3 (vx: real) (vy: real) (vz: real)

text \<open>
  Modelled from the spec: the vector class \<open>Vec3\<close> is not among the sources. Its
  \<open>distance\<close>, \<open>dot\<close>, \<open>scaleTo\<close> and \<open>addA\<close> are the Euclidean distance, the
  inner product, the multiple by a scalar and the sum (\<open>addA\<close> adds in place and
  returns the receiver; the model returns the sum).
\<close>

definition distance :: "vec3 \<Rightarrow> vec3 \<Rightarrow> real" where
  "distance a b = sqrt ((vx a - vx b)\<^sup>2 + (vy a - vy b)\<^sup>2 + (vz a - vz b)\<^sup>2)"


definition scaleTo :: "vec3 \<Rightarrow> real \<Rightarrow> vec3" where
  "scaleTo a s = Vec3 (vx a * s) (vy a * s) (vz a * s)"

definition addA :: "vec3 \<Rightarrow> vec3 \<Rightarrow> vec3" where
  "addA a b = Vec3 (vx a + vx b) (vy a + vy b) (vz a + vz b)"


section \<open>Camera: the projected-size metric\<close>

text \<open>
  The fields of \<open>Camera\<close> that \<open>projectedSize\<close> and the viewport parameters read
  and write. The source names them \<open>_width\<close>, \<open>_height\<close>, \<open>_viewAngle\<close> and
  \<open>_projSizeConst\<close>. The view and projection matrices, the frustums and the two
  tangent fields that \<open>_updateViewportParameters\<close> also sets are not read by
  \<open>projectedSize\<close> and are left out.
\<close>

record camera =
  eye :: vec3
  width :: real
  height :: real
  viewAngle :: real
  projSizeConst :: jsnum

text \<open>
  Modelled from the spec: the constant \<open>RADIANS\<close> of the math module, which is not
  among the sources, is \<open>\<pi>/180\<close>.
\<close>

definition RADIANS :: real where
  "RADIANS = pi / 180"

definition updateViewportParameters :: "camera \<Rightarrow> camera" where
  "updateViewportParameters c =
     c\<lparr>projSizeConst :=
         js_div (Num (min (if width c < 512 then 512 else width c)
                          (if height c < 512 then 512 else height c)))
                (Num (viewAngle c * RADIANS))\<rparr>"

definition getAspectRatio :: "camera \<Rightarrow> jsnum" where
  "getAspectRatio c = js_div (Num (width c)) (Num (height c))"

text \<open>
  \<open>_setProj(angle, aspect)\<close>: the aspect ratio only goes into the frustums'
  projection matrices and the horizontal view angle.
\<close>

definition setProj :: "camera \<Rightarrow> real \<Rightarrow> jsnum \<Rightarrow> camera" where
  "setProj c angle aspect = updateViewportParameters (c\<lparr>viewAngle := angle\<rparr>)"

text \<open>\<open>refresh\<close>: \<open>_setProj\<close>, then \<open>update\<close>, which rebuilds the view matrices only.\<close>

definition refresh :: "camera \<Rightarrow> camera" where
  "refresh c = setProj c (viewAngle c) (getAspectRatio c)"

definition setViewportSize :: "camera \<Rightarrow> real \<Rightarrow> real \<Rightarrow> camera" where
  "setViewportSize c w h = refresh (c\<lparr>width := w, height := h\<rparr>)"

definition setViewAngle :: "camera \<Rightarrow> real \<Rightarrow> camera" where
  "setViewAngle c angle = refresh (c\<lparr>viewAngle := angle\<rparr>)"

text \<open>\<open>copy(cam)\<close>: the orientation vectors it also copies are not modelled.\<close>

definition copy :: "camera \<Rightarrow> camera \<Rightarrow> camera" where
  "copy c cam = setViewAngle (c\<lparr>eye := eye cam, width := width cam, height := height cam\<rparr>)
                  (viewAngle cam)"

definition projectedSize :: "camera \<Rightarrow> vec3 \<Rightarrow> real \<Rightarrow> jsnum" where
  "projectedSize c p r =
     js_mul (js_atan (js_div (Num r) (Num (distance (eye c) p)))) (projSizeConst c)"

text \<open>The constant as the specification words it.\<close>

definition spec_projSizeConst :: "real \<Rightarrow> real \<Rightarrow> real \<Rightarrow> jsnum" where
  "spec_projSizeConst w h angle =
     js_div (Num (min (max w 512) (max h 512))) (Num (angle * (pi / 180)))"


section \<open>Planet: the memory clear of the pre-draw step\<close>

datatype error = TypeError

text \<open>
  Calls to collaborators that are not among the sources (the terrain provider, the
  loaders, the quad-tree strategy, the locks, the camera's flight step and the GL
  buffer deletion) are recorded, in order, in a trace.
\<close>

datatype call =
    CheckFly
  | TerrainClearCache
  | LayerLock | TerrainLock | NormalMapCreatorLock
  | NormalMapCreatorClear
  | TerrainAbortLoading
  | TileLoaderAbortAll
  | QuadTreeStrategyClear
  | LayerFree | TerrainFree | NormalMapCreatorFree
  | DeleteIndexBuffers

text \<open>
  The fields of \<open>Planet\<close> that \<open>_globalPreDraw\<close> and \<open>memClear\<close> read and write
  (the source prefixes them with an underscore). \<open>hasTerrain\<close> says that
  \<open>this.terrain\<close> is not \<open>null\<close>: the source dereferences it with \<open>terrain!\<close>.
\<close>

record planetMem =
  distBeforeMemClear :: real
  prevCamEye :: vec3
  createdNodesCount :: int
  minDistanceBeforeMemClear :: real
  indexesCacheToRemoveCounter :: int
  hasTerrain :: bool
  trace :: "call list"

definition MAX_NODES :: int where
  "MAX_NODES = 200"

definition called :: "planetMem \<Rightarrow> call list \<Rightarrow> planetMem" where
  "called p cs = p\<lparr>trace := trace p @ cs\<rparr>"

definition memClear :: "planetMem \<Rightarrow> error + planetMem" where
  "memClear p =
     (let p1 = p\<lparr>distBeforeMemClear := 0\<rparr>;
          p2 = called p1 [LayerLock, TerrainLock, NormalMapCreatorLock, NormalMapCreatorClear]
      in if \<not> hasTerrain p2 then Inl TypeError
         else
           (let p3 = called p2 [TerrainAbortLoading, TileLoaderAbortAll, QuadTreeStrategyClear,
                                LayerFree, TerrainFree, NormalMapCreatorFree]
            in Inr (p3\<lparr>createdNodesCount := 0\<rparr>)))"

definition clearIndexesCache :: "planetMem \<Rightarrow> planetMem" where
  "clearIndexesCache p = called (p\<lparr>indexesCacheToRemoveCounter := 0\<rparr>) [DeleteIndexBuffers]"

text \<open>\<open>_globalPreDraw\<close>, given the eye of the planet's camera in this frame.\<close>

definition globalPreDraw :: "planetMem \<Rightarrow> vec3 \<Rightarrow> error + planetMem" where
  "globalPreDraw p camEye =
     (let p1 = p\<lparr>distBeforeMemClear := distBeforeMemClear p + distance (prevCamEye p) camEye\<rparr>;
          p2 = p1\<lparr>prevCamEye := camEye\<rparr>;
          p3 = called p2 [CheckFly];
          freed =
            (if createdNodesCount p3 > MAX_NODES
                \<and> distBeforeMemClear p3 > minDistanceBeforeMemClear p3
             then (if \<not> hasTerrain p3 then Inl TypeError
                   else memClear (called p3 [TerrainClearCache]))
             else Inr p3)
      in case freed of
           Inl e \<Rightarrow> Inl e
         | Inr p4 \<Rightarrow>
             Inr (if indexesCacheToRemoveCounter p4 > 600 then clearIndexesCache p4 else p4))"

text \<open>The calls of one full clear: \<open>terrain.clearCache()\<close>, then those of \<open>memClear\<close>.\<close>

definition fullClear :: "call list" where
  "fullClear =
     [TerrainClearCache,
      LayerLock, TerrainLock, NormalMapCreatorLock, NormalMapCreatorClear,
      TerrainAbortLoading, TileLoaderAbortAll, QuadTreeStrategyClear,
      LayerFree, TerrainFree, NormalMapCreatorFree]"


section \<open>Planet: the equal-zoom correction pass\<close>


text \<open>
  The planet camera, with what the pass reads of it: \<open>slope\<close>, \<open>_lonLat\<close> (its
  height is the altitude) and the vector that \<open>getBackward()\<close> returns.
\<close>

record planetCamera =
  slope :: real
  lonLat :: lonLat
  backward :: vec3















section \<open>Planet: picking a point from a screen pixel\<close>

text \<open>
  The argument \<open>px\<close> is a \<open>Vec2\<close> or an input state: both have the screen
  coordinates \<open>x\<close> and \<open>y\<close> (here \<open>px_x\<close> and \<open>px_y\<close>); an input state also carries
  \<open>direction\<close>, the world direction the renderer's event handler stored for it.
\<close>

record pixel =
  px_x :: real
  px_y :: real
  direction :: "vec3 option"

text \<open>
  What the picking functions use of the planet's surroundings. \<open>hasRenderer\<close> says
  that \<open>this.renderer\<close> and its active camera are set (the source dereferences both
  with \<open>!\<close>). The functions whose code is not among the sources, or depends on
  matrices that are not, are parameters: \<open>Camera.unproject\<close>, \<open>Ellipsoid.hitRay\<close>
  (\<open>None\<close> for \<open>undefined\<close>), \<open>Ellipsoid.cartesianToLonLat\<close>, and
  \<open>Renderer.getDistanceFromPixel\<close>, the distance read from the depth buffer
  (\<open>None\<close> for \<open>undefined\<close> or NaN).
\<close>

record pickEnv =
  hasRenderer :: bool
  camEye :: vec3
  unproject :: "real \<Rightarrow> real \<Rightarrow> vec3"
  hitRay :: "vec3 \<Rightarrow> vec3 \<Rightarrow> vec3 option"
  cartesianToLonLat :: "vec3 \<Rightarrow> lonLat"
  rendererDistance :: "pixel \<Rightarrow> real option"

definition getCartesianFromPixelEllipsoid :: "pickEnv \<Rightarrow> pixel \<Rightarrow> error + vec3 option" where
  "getCartesianFromPixelEllipsoid env px =
     (if \<not> hasRenderer env then Inl TypeError
      else Inr (hitRay env (camEye env) (unproject env (px_x px) (px_y px))))"

definition getDistanceFromPixelEllipsoid :: "pickEnv \<Rightarrow> pixel \<Rightarrow> error + real option" where
  "getDistanceFromPixelEllipsoid env px =
     (case getCartesianFromPixelEllipsoid env px of
        Inl e \<Rightarrow> Inl e
      | Inr None \<Rightarrow> Inr None
      | Inr (Some coords) \<Rightarrow>
          (if \<not> hasRenderer env then Inl TypeError
           else Inr (Some (distance coords (camEye env)))))"

text \<open>
  \<open>renderer.getDistanceFromPixel(px) || getDistanceFromPixelEllipsoid(px) || 0\<close>:
  an operand is passed over when it is \<open>undefined\<close>, NaN or zero.
\<close>

definition getDistanceFromPixel :: "pickEnv \<Rightarrow> pixel \<Rightarrow> error + real" where
  "getDistanceFromPixel env px =
     (if \<not> hasRenderer env then Inl TypeError
      else case rendererDistance env px of
             Some d \<Rightarrow>
               (if d \<noteq> 0 then Inr d
                else case getDistanceFromPixelEllipsoid env px of
                       Inl e \<Rightarrow> Inl e
                     | Inr None \<Rightarrow> Inr 0
                     | Inr (Some d') \<Rightarrow> Inr (if d' \<noteq> 0 then d' else 0))
           | None \<Rightarrow>
               (case getDistanceFromPixelEllipsoid env px of
                  Inl e \<Rightarrow> Inl e
                | Inr None \<Rightarrow> Inr 0
                | Inr (Some d') \<Rightarrow> Inr (if d' \<noteq> 0 then d' else 0)))"

definition getCartesianFromPixelTerrain :: "pickEnv \<Rightarrow> pixel \<Rightarrow> error + vec3 option" where
  "getCartesianFromPixelTerrain env px =
     (case getDistanceFromPixel env px of
        Inl e \<Rightarrow> Inl e
      | Inr d \<Rightarrow>
          (if d \<noteq> 0 then
             (let dir = (case direction px of
                           Some v \<Rightarrow> v
                         | None \<Rightarrow> unproject env (px_x px) (px_y px))
              in Inr (Some (addA (scaleTo dir d) (camEye env))))
           else Inr None))"

definition getLonLatFromPixelTerrain :: "pickEnv \<Rightarrow> pixel \<Rightarrow> error + lonLat option" where
  "getLonLatFromPixelTerrain env px =
     (case getCartesianFromPixelTerrain env px of
        Inl e \<Rightarrow> Inl e
      | Inr None \<Rightarrow> Inr None
      | Inr (Some coords) \<Rightarrow> Inr (Some (cartesianToLonLat env coords)))"

text \<open>
  The pixel's view ray meets nothing: the depth buffer gives no distance and the ray
  from the eye misses the ellipsoid.
\<close>

definition rayMisses :: "pickEnv \<Rightarrow> pixel \<Rightarrow> bool" where
  "rayMisses env px \<longleftrightarrow>
     (rendererDistance env px = None \<or> rendererDistance env px = Some 0) \<and>
     hitRay env (camEye env) (unproject env (px_x px) (px_y px)) = None"


section \<open>Elevation extraction of the RGB terrain provider\<close>













section \<open>The transition-opacity state machine\<close>

text \<open>
  Modelled from the spec: \<open>Node._collectFadingNodes\<close>, \<open>Node._refreshTransitionOpacity\<close>
  and the code that advances \<open>Segment._transitionOpacity\<close> are not among the sources;
  \<open>Planet._collectRenderNodes\<close> only calls them and \<open>Planet._renderingFadingNodes\<close>
  only reads the opacity. The states and transitions are those of the specification's
  section on fading. A segment is in one of four states: \<open>OPAQUE_IN\<close> (opacity rising
  from 0 to 1), \<open>STEADY\<close> (opacity 1), \<open>FADING_OUT\<close> (opacity falling to 0) and \<open>GONE\<close>
  (removed). A node entering the rendered set for the first time starts at opacity 0;
  each frame its opacity increases by a fixed rate until it reaches 1, where the
  segment becomes steady. A node leaving the rendered set is kept, and its opacity
  decreases each frame by the rate; when it reaches 0 the node is evicted.
\<close>

datatype fadeState = OPAQUE_IN | STEADY | FADING_OUT | GONE

record segmentFade =
  fadeState :: fadeState
  transitionOpacity :: real

definition enteredRendered :: segmentFade where
  "enteredRendered = \<lparr>fadeState = OPAQUE_IN, transitionOpacity = 0\<rparr>"

definition leftRendered :: "segmentFade \<Rightarrow> segmentFade" where
  "leftRendered s =
     (case fadeState s of
        OPAQUE_IN \<Rightarrow> s\<lparr>fadeState := FADING_OUT\<rparr>
      | STEADY \<Rightarrow> s\<lparr>fadeState := FADING_OUT\<rparr>
      | FADING_OUT \<Rightarrow> s
      | GONE \<Rightarrow> s)"

text \<open>One frame of one segment, at the rate \<open>rate\<close>.\<close>

definition frameStep :: "real \<Rightarrow> segmentFade \<Rightarrow> segmentFade" where
  "frameStep rate s =
     (case fadeState s of
        OPAQUE_IN \<Rightarrow>
          (if transitionOpacity s + rate < 1
           then s\<lparr>transitionOpacity := transitionOpacity s + rate\<rparr>
           else \<lparr>fadeState = STEADY, transitionOpacity = 1\<rparr>)
      | STEADY \<Rightarrow> s
      | FADING_OUT \<Rightarrow>
          (if 0 < transitionOpacity s - rate
           then s\<lparr>transitionOpacity := transitionOpacity s - rate\<rparr>
           else \<lparr>fadeState = GONE, transitionOpacity = 0\<rparr>)
      | GONE \<Rightarrow> s)"

text \<open>
  The segments the planet holds, keyed by node id: those of the rendered nodes and
  those still fading out. The fading collection is the part of it that is not
  steady.
\<close>

type_synonym fadeMap = "nat \<rightharpoonup> segmentFade"

datatype fadeEvent = Enter nat | Leave nat | Frame

definition inFading :: "fadeMap \<Rightarrow> nat \<Rightarrow> bool" where
  "inFading m i \<longleftrightarrow>
     (case m i of None \<Rightarrow> False | Some s \<Rightarrow> fadeState s = OPAQUE_IN \<or> fadeState s = FADING_OUT)"

fun applyEvent :: "real \<Rightarrow> fadeEvent \<Rightarrow> fadeMap \<Rightarrow> fadeMap" where
  "applyEvent rate (Enter i) m = (case m i of None \<Rightarrow> m(i \<mapsto> enteredRendered) | Some s \<Rightarrow> m)"
| "applyEvent rate (Leave i) m = (case m i of None \<Rightarrow> m | Some s \<Rightarrow> m(i \<mapsto> leftRendered s))"
| "applyEvent rate Frame m =
     (\<lambda>i. case m i of
             None \<Rightarrow> None
           | Some s \<Rightarrow>
               (if fadeState (frameStep rate s) = GONE then None else Some (frameStep rate s)))"

text \<open>A run of the planet from its start, where it holds no segment.\<close>

fun fadeRun :: "real \<Rightarrow> fadeEvent list \<Rightarrow> fadeMap \<Rightarrow> fadeMap" where
  "fadeRun rate [] m = m"
| "fadeRun rate (e # es) m = fadeRun rate es (applyEvent rate e m)"

text \<open>What holds of every segment the planet holds.\<close>

definition fadeInvariant :: "segmentFade \<Rightarrow> bool" where
  "fadeInvariant s \<longleftrightarrow>
     0 \<le> transitionOpacity s \<and> transitionOpacity s \<le> 1 \<and>
     fadeState s \<noteq> GONE \<and>
     (if fadeState s = STEADY then transitionOpacity s = 1 else True)"


section \<open>Properties: tile index arithmetic\<close>

lemma and_31_small: "n < 32 \<Longrightarrow> unat ((word_of_int (int n) :: 32 word) AND 31) = n"
proof -
  assume n: "n < 32"
  have "(31 :: 32 word) = mask 5"
    by (simp add: mask_eq_exp_minus_1)
  then have "(word_of_int (int n) :: 32 word) AND 31 = take_bit 5 (word_of_int (int n))"
    by (simp add: take_bit_eq_mask)
  then have "unat ((word_of_int (int n) :: 32 word) AND 31)
      = take_bit 5 (unat (word_of_int (int n) :: 32 word))"
    by (simp add: unsigned_take_bit_eq)
  also have "unat (word_of_int (int n) :: 32 word) = n"
    using n by (simp add: unat_of_nat take_bit_nat_eq_self)
  also have "take_bit 5 n = n"
    using n by (simp add: take_bit_nat_eq_self)
  finally show ?thesis .
qed

lemma js_shl_two:
  assumes "n < 30"
  shows "js_shl 2 (int n) = 2 ^ Suc n"
proof -
  have cnt: "unat ((word_of_int (int n) :: 32 word) AND 31) = n"
    by (rule and_31_small) (use assms in simp)
  have "push_bit n (word_of_int 2 :: 32 word) = word_of_int (2 ^ Suc n)"
    by (simp add: push_bit_eq_mult)
  then have "sint (push_bit n (word_of_int 2 :: 32 word)) = signed_take_bit 31 ((2::int) ^ Suc n)"
    by (simp only: sint_sbintrunc') simp
  also have "\<dots> = 2 ^ Suc n"
  proof (rule signed_take_bit_int_eq_self)
    show "- (2 ^ 31) \<le> (2::int) ^ Suc n"
      by (rule order_trans [of _ 0]) simp_all
    show "(2::int) ^ Suc n < 2 ^ 31"
      using assms by (intro power_strict_increasing) simp_all
  qed
  finally show ?thesis
    unfolding js_shl_def cnt .
qed

lemma getTileOffset_ancestor:
  assumes "1 \<le> dz" and "dz \<le> 30"
  shows "getTileOffset cx cy (pz + dz) px py pz
    = (cx - 2 ^ nat dz * px, cy - 2 ^ nat dz * py, Num (1 / 2 ^ nat dz))"
proof -
  define n where "n = nat (dz - 1)"
  have n: "n < 30" "dz - 1 = int n" "nat dz = Suc n"
    using assms by (simp_all add: n_def)
  have "js_shl 2 (pz + dz - pz - 1) = 2 ^ nat dz"
    using js_shl_two [OF n(1)] n by simp
  then show ?thesis
    by (simp add: getTileOffset_def Let_def)
qed

text \<open>
  Claim C10, as the code has it. \<open>getChildTileIndex x y z ox oy\<close> is
  \<open>(2x + ox, 2y + oy, z + 1)\<close>; the offset of that child in its parent is
  \<open>[ox, oy, 0.5]\<close>; and for an ancestor \<open>dz\<close> levels up, with \<open>1 \<le> dz \<le> 30\<close>,
  \<open>getTileOffset\<close> gives \<open>[childX - 2^dz * parentX, childY - 2^dz * parentY, 2^(-dz)]\<close>.
  The bound \<open>dz \<le> 30\<close> is needed: \<open>2 << (dz - 1)\<close> is a 32-bit signed shift.
\<close>

theorem tile_index_offset:
  "getChildTileIndex x y z ox oy = (2 * x + ox, 2 * y + oy, z + 1) \<and>
   getTileOffset (2 * x + ox) (2 * y + oy) (z + 1) x y z = (ox, oy, Num (1 / 2)) \<and>
   (1 \<le> dz \<and> dz \<le> 30 \<longrightarrow>
      getTileOffset cx cy (pz + dz) px py pz
        = (cx - 2 ^ nat dz * px, cy - 2 ^ nat dz * py, Num (1 / 2 ^ nat dz)))"
proof (intro conjI impI)
  show "getChildTileIndex x y z ox oy = (2 * x + ox, 2 * y + oy, z + 1)"
    by (simp add: getChildTileIndex_def)
  show "getTileOffset (2 * x + ox) (2 * y + oy) (z + 1) x y z = (ox, oy, Num (1 / 2))"
    by (simp add: getTileOffset_def js_shl_def)
  show "getTileOffset cx cy (pz + dz) px py pz
        = (cx - 2 ^ nat dz * px, cy - 2 ^ nat dz * py, Num (1 / 2 ^ nat dz))"
    if "1 \<le> dz \<and> dz \<le> 30"
    using that by (simp add: getTileOffset_ancestor)
qed

theorem tile_index_offset_witness:
  "getChildTileIndex 3 5 4 1 0 = (7, 10, 5) \<and>
   getTileOffset 7 10 5 3 5 4 = (1, 0, Num (1 / 2)) \<and>
   getTileOffset 29 43 7 3 5 4 = (5, 3, Num (1 / 8))"
  using tile_index_offset [of 3 5 4 1 0 3 29 43 4 3 5] by simp

text \<open>
  The statement for every \<open>dz \<ge> 1\<close> fails at \<open>dz = 31\<close>: \<open>2 << 30\<close> is
  \<open>-2147483648\<close>, so the third component is \<open>-2^(-31)\<close> and the parent's
  coordinates are scaled by a negative factor.
\<close>

theorem tile_offset_dz31_counterexample:
  "getTileOffset 1 1 31 0 0 0 = (1, 1, Num (- (1 / 2 ^ 31))) \<and>
   getTileOffset 1 1 31 0 0 0 \<noteq> (1 - 2 ^ 31 * 0, 1 - 2 ^ 31 * 0, Num (1 / 2 ^ 31))"
  by (simp add: getTileOffset_def js_shl_def)


section \<open>Properties: height decoding\<close>

text \<open>
  Claim C7. For every channel triple, \<open>rgb2Height\<close> is
  \<open>minHeight + resolution * (r * 256 * 256 + g * 256 + b)\<close>, except that a triple
  with \<open>r = 255\<close> gives \<open>minHeight\<close> whatever \<open>g\<close> and \<open>b\<close> are.
\<close>

theorem rgb2Height_decoding:
  "(r = 255 \<longrightarrow> rgb2Height t r g b = minHeight t) \<and>
   (r \<noteq> 255 \<longrightarrow>
      rgb2Height t r g b = minHeight t + resolution t * (r * 256 * 256 + g * 256 + b))"
  by (simp add: rgb2Height_def)

theorem rgb2Height_decoding_witness:
  "rgb2Height \<lparr>minHeight = - 10000, resolution = 1 / 10\<rparr> 255 3 4 = - 10000 \<and>
   rgb2Height \<lparr>minHeight = - 10000, resolution = 1 / 10\<rparr> 1 2 3 = - 33949 / 10"
  using rgb2Height_decoding [of 255 "\<lparr>minHeight = - 10000, resolution = 1 / 10\<rparr>" 3 4]
    rgb2Height_decoding [of 1 "\<lparr>minHeight = - 10000, resolution = 1 / 10\<rparr>" 2 3]
  by simp


section \<open>Properties: the projected-size metric\<close>

lemma projSizeConst_updateViewportParameters:
  "projSizeConst (updateViewportParameters c)
     = spec_projSizeConst (width c) (height c) (viewAngle c)"
  by (simp add: updateViewportParameters_def spec_projSizeConst_def RADIANS_def max_def)

text \<open>
  Claim C2. \<open>projectedSize(p, r)\<close> is \<open>atan(r / distance(eye, p))\<close> times
  \<open>projSizeConst\<close>, and after each of the operations that change the viewport or the
  view angle (\<open>setViewportSize\<close>, \<open>setViewAngle\<close>, \<open>refresh\<close>, \<open>copy\<close>) the
  constant is \<open>min(max(width, 512), max(height, 512)) / (viewAngle * \<pi>/180)\<close> of the
  new width, height and angle. Where neither division is by zero this is the real
  number \<open>arctan (r / d) * (min (max w 512) (max h 512) / (a * \<pi>/180))\<close>.
\<close>

theorem projectedSize_formula:
  "projSizeConst (setViewportSize c w h) = spec_projSizeConst w h (viewAngle c) \<and>
   projSizeConst (setViewAngle c a) = spec_projSizeConst (width c) (height c) a \<and>
   projSizeConst (refresh c) = spec_projSizeConst (width c) (height c) (viewAngle c) \<and>
   projSizeConst (copy c cam) = spec_projSizeConst (width cam) (height cam) (viewAngle cam) \<and>
   projectedSize c p r
     = js_mul (js_atan (js_div (Num r) (Num (distance (eye c) p)))) (projSizeConst c) \<and>
   (distance (eye c) p \<noteq> 0 \<and> a \<noteq> 0 \<longrightarrow>
      projectedSize (setViewAngle c a) p r
        = Num (arctan (r / distance (eye c) p)
               * (min (max (width c) 512) (max (height c) 512) / (a * (pi / 180)))))"
  by (simp add: setViewportSize_def setViewAngle_def refresh_def copy_def setProj_def
        projSizeConst_updateViewportParameters projectedSize_def)
    (simp add: spec_projSizeConst_def updateViewportParameters_def)

theorem projectedSize_formula_witness:
  "projectedSize
     (setViewAngle \<lparr>eye = Vec3 0 0 0, width = 1024, height = 768, viewAngle = 47,
                     projSizeConst = Num 0\<rparr> 45)
     (Vec3 1 0 0) 1 = Num 768"
  using projectedSize_formula
    [of "\<lparr>eye = Vec3 0 0 0, width = 1024, height = 768, viewAngle = 47, projSizeConst = Num 0\<rparr>"
        1024 768 45 _ "Vec3 1 0 0" 1]
  by (simp add: distance_def arctan_one)

lemma distance_nonneg: "0 \<le> distance a b"
  by (simp add: distance_def)

lemma projectedSize_decreasing:
  assumes k: "projSizeConst c = Num k" "0 < k" and r: "0 < r"
    and d: "distance (eye c) p1 < distance (eye c) p2"
  shows "js_lt (projectedSize c p2 r) (projectedSize c p1 r)"
proof -
  let ?d1 = "distance (eye c) p1" and ?d2 = "distance (eye c) p2"
  have d2: "0 < ?d2"
    using d distance_nonneg [of "eye c" p1] by linarith
  have far: "projectedSize c p2 r = Num (arctan (r / ?d2) * k)"
    using d2 k by (simp add: projectedSize_def)
  show ?thesis
  proof (cases "?d1 = 0")
    case True
    then have near: "projectedSize c p1 r = Num (pi / 2 * k)"
      using k r by (simp add: projectedSize_def)
    have "arctan (r / ?d2) < pi / 2"
      by (rule arctan_ubound)
    then have "arctan (r / ?d2) * k < pi / 2 * k"
      using k(2) by (rule mult_strict_right_mono)
    then show ?thesis
      by (simp add: near far)
  next
    case False
    then have d1: "0 < ?d1"
      using distance_nonneg [of "eye c" p1] by linarith
    have near: "projectedSize c p1 r = Num (arctan (r / ?d1) * k)"
      using d1 k by (simp add: projectedSize_def)
    have "r / ?d2 < r / ?d1"
      using d d1 r by (simp add: divide_strict_left_mono)
    then have "arctan (r / ?d2) < arctan (r / ?d1)"
      by (simp add: arctan_less_iff)
    then have "arctan (r / ?d2) * k < arctan (r / ?d1) * k"
      using k(2) by (rule mult_strict_right_mono)
    then show ?thesis
      by (simp add: near far)
  qed
qed

lemma projectedSize_increasing:
  assumes k: "projSizeConst c = Num k" "0 < k"
    and d: "0 < distance (eye c) p" and r: "r1 < r2"
  shows "js_lt (projectedSize c p r1) (projectedSize c p r2)"
proof -
  have "r1 / distance (eye c) p < r2 / distance (eye c) p"
    using d r by (simp add: divide_strict_right_mono)
  then have "arctan (r1 / distance (eye c) p) < arctan (r2 / distance (eye c) p)"
    by (simp add: arctan_less_iff)
  then have "arctan (r1 / distance (eye c) p) * k < arctan (r2 / distance (eye c) p) * k"
    using k(2) by (rule mult_strict_right_mono)
  then show ?thesis
    using d k by (simp add: projectedSize_def)
qed

text \<open>
  Claim C3. For a camera with a finite positive \<open>projSizeConst\<close>: with \<open>r > 0\<close>
  fixed, a point farther from the eye has a strictly smaller projected size (also
  when the nearer point is the eye itself); with the distance fixed and positive, a
  larger radius has a strictly larger projected size. The comparison is the
  source language's \<open><\<close> on the computed values, over the reals.
\<close>

theorem projectedSize_monotone:
  "projSizeConst c = Num k \<and> 0 < k \<longrightarrow>
   (0 < r \<and> distance (eye c) p1 < distance (eye c) p2 \<longrightarrow>
      js_lt (projectedSize c p2 r) (projectedSize c p1 r)) \<and>
   (0 < distance (eye c) p \<and> r1 < r2 \<longrightarrow>
      js_lt (projectedSize c p r1) (projectedSize c p r2))"
  using projectedSize_decreasing projectedSize_increasing by blast

theorem projectedSize_monotone_witness:
  "js_lt (projectedSize \<lparr>eye = Vec3 0 0 0, width = 1024, height = 768, viewAngle = 45,
                          projSizeConst = Num 768\<rparr> (Vec3 2 0 0) 1)
         (projectedSize \<lparr>eye = Vec3 0 0 0, width = 1024, height = 768, viewAngle = 45,
                          projSizeConst = Num 768\<rparr> (Vec3 1 0 0) 1) \<and>
   js_lt (projectedSize \<lparr>eye = Vec3 0 0 0, width = 1024, height = 768, viewAngle = 45,
                          projSizeConst = Num 768\<rparr> (Vec3 1 0 0) 1)
         (projectedSize \<lparr>eye = Vec3 0 0 0, width = 1024, height = 768, viewAngle = 45,
                          projSizeConst = Num 768\<rparr> (Vec3 1 0 0) 2)"
  using projectedSize_monotone
    [of "\<lparr>eye = Vec3 0 0 0, width = 1024, height = 768, viewAngle = 45, projSizeConst = Num 768\<rparr>"
        768 1 "Vec3 1 0 0" "Vec3 2 0 0" "Vec3 1 0 0" 1 2]
  by (simp add: distance_def)


section \<open>Properties: the lon-lat node split\<close>

lemmas split_defs =
  childExtent_def createChildNodes_def Let_def Extent_def LonLat_def
  getWidth_def getHeight_def isInside_def centre_def

lemma child_halves:
  "q \<in> {NW, NE, SW, SE} \<Longrightarrow>
     getWidth (childExtent n q) = getWidth (extent n) / 2 \<and>
     getHeight (childExtent n q) = getHeight (extent n) / 2"
  unfolding split_defs by (auto simp: field_simps)

lemma child_corners:
  "northEast (childExtent n SW) = centre (extent n)"
  "southWest (childExtent n NE) = centre (extent n)"
  "lon (northEast (childExtent n NW)) = lon (centre (extent n))"
  "lat (southWest (childExtent n NW)) = lat (centre (extent n))"
  "lon (southWest (childExtent n SE)) = lon (centre (extent n))"
  "lat (northEast (childExtent n SE)) = lat (centre (extent n))"
  unfolding split_defs by simp_all

lemma children_cover:
  "isInside (extent n) p \<longleftrightarrow>
     isInside (childExtent n NW) p \<or> isInside (childExtent n NE) p \<or>
     isInside (childExtent n SW) p \<or> isInside (childExtent n SE) p"
  unfolding split_defs by simp argo

lemma children_meet_on_midlines:
  "q \<in> {NW, NE, SW, SE} \<Longrightarrow> q' \<in> {NW, NE, SW, SE} \<Longrightarrow> q \<noteq> q' \<Longrightarrow>
   isInside (childExtent n q) p \<Longrightarrow> isInside (childExtent n q') p \<Longrightarrow>
     lon p = lon (centre (extent n)) \<or> lat p = lat (centre (extent n))"
  unfolding split_defs by auto

text \<open>
  Claim C1. \<open>createChildNodes\<close> stores exactly the four children \<open>NW\<close>, \<open>NE\<close>,
  \<open>SW\<close>, \<open>SE\<close>. Each child's extent has half the parent's width and half its
  height and has the parent's midpoint as a corner; a point lies in the parent's
  extent exactly when it lies in one of the four child extents (no gap, and the
  union is the parent); and a point in two different children lies on one of the
  two midlines, that is, on an edge the two share.
\<close>

theorem createChildNodes_partition:
  "dom (createChildNodes n) = {NW, NE, SW, SE} \<and>
   (\<forall>q \<in> {NW, NE, SW, SE}.
      getWidth (childExtent n q) = getWidth (extent n) / 2 \<and>
      getHeight (childExtent n q) = getHeight (extent n) / 2) \<and>
   northEast (childExtent n SW) = centre (extent n) \<and>
   southWest (childExtent n NE) = centre (extent n) \<and>
   lon (northEast (childExtent n NW)) = lon (centre (extent n)) \<and>
   lat (southWest (childExtent n NW)) = lat (centre (extent n)) \<and>
   lon (southWest (childExtent n SE)) = lon (centre (extent n)) \<and>
   lat (northEast (childExtent n SE)) = lat (centre (extent n)) \<and>
   (\<forall>p. isInside (extent n) p \<longleftrightarrow> (\<exists>q \<in> {NW, NE, SW, SE}. isInside (childExtent n q) p)) \<and>
   (\<forall>p. \<forall>q \<in> {NW, NE, SW, SE}. \<forall>q' \<in> {NW, NE, SW, SE}.
      q \<noteq> q' \<and> isInside (childExtent n q) p \<and> isInside (childExtent n q') p \<longrightarrow>
        lon p = lon (centre (extent n)) \<or> lat p = lat (centre (extent n)))"
proof -
  have "dom (createChildNodes n) = {NW, NE, SW, SE}"
    by (auto simp: createChildNodes_def Let_def split: if_splits)
  moreover have "\<forall>q \<in> {NW, NE, SW, SE}.
      getWidth (childExtent n q) = getWidth (extent n) / 2 \<and>
      getHeight (childExtent n q) = getHeight (extent n) / 2"
    using child_halves by blast
  moreover have "\<forall>p. isInside (extent n) p
      \<longleftrightarrow> (\<exists>q \<in> {NW, NE, SW, SE}. isInside (childExtent n q) p)"
    using children_cover [of n] by simp
  moreover have "\<forall>p. \<forall>q \<in> {NW, NE, SW, SE}. \<forall>q' \<in> {NW, NE, SW, SE}.
      q \<noteq> q' \<and> isInside (childExtent n q) p \<and> isInside (childExtent n q') p \<longrightarrow>
        lon p = lon (centre (extent n)) \<or> lat p = lat (centre (extent n))"
    using children_meet_on_midlines [of _ _ n] by blast
  ultimately show ?thesis
    using child_corners [of n] by blast
qed

theorem createChildNodes_partition_witness:
  "getWidth (childExtent \<lparr>partId = ROOT, extent = Extent (LonLat (- 180) (- 90)) (LonLat 180 90),
                          zoom = 0\<rparr> NW) = 180 \<and>
   getHeight (childExtent \<lparr>partId = ROOT, extent = Extent (LonLat (- 180) (- 90)) (LonLat 180 90),
                           zoom = 0\<rparr> SE) = 90 \<and>
   southWest (childExtent \<lparr>partId = ROOT, extent = Extent (LonLat (- 180) (- 90)) (LonLat 180 90),
                           zoom = 0\<rparr> NE) = LonLat 0 0 \<and>
   isInside (childExtent \<lparr>partId = ROOT, extent = Extent (LonLat (- 180) (- 90)) (LonLat 180 90),
                          zoom = 0\<rparr> NW) (LonLat 0 45) \<and>
   isInside (childExtent \<lparr>partId = ROOT, extent = Extent (LonLat (- 180) (- 90)) (LonLat 180 90),
                          zoom = 0\<rparr> NE) (LonLat 0 45) \<and>
   isInside (Extent (LonLat (- 180) (- 90)) (LonLat 180 90)) (LonLat 0 45)"
  using createChildNodes_partition
    [of "\<lparr>partId = ROOT, extent = Extent (LonLat (- 180) (- 90)) (LonLat 180 90), zoom = 0\<rparr>"]
  by (simp add: split_defs)


section \<open>Properties: the memory clear\<close>

lemma memClear_resets:
  "hasTerrain p \<Longrightarrow>
     \<exists>p'. memClear p = Inr p' \<and> distBeforeMemClear p' = 0 \<and> createdNodesCount p' = 0"
  by (simp add: memClear_def called_def Let_def)

lemma globalPreDraw_clears:
  assumes "hasTerrain p"
  shows "\<exists>p'. globalPreDraw p e = Inr p' \<and>
        (if createdNodesCount p > 200
            \<and> distBeforeMemClear p + distance (prevCamEye p) e > minDistanceBeforeMemClear p
         then trace p' = trace p @ [CheckFly] @ fullClear
                  @ (if indexesCacheToRemoveCounter p > 600 then [DeleteIndexBuffers] else [])
              \<and> distBeforeMemClear p' = 0 \<and> createdNodesCount p' = 0
         else trace p' = trace p @ [CheckFly]
                  @ (if indexesCacheToRemoveCounter p > 600 then [DeleteIndexBuffers] else [])
              \<and> distBeforeMemClear p' = distBeforeMemClear p + distance (prevCamEye p) e
              \<and> createdNodesCount p' = createdNodesCount p)"
  using assms
  by (simp add: globalPreDraw_def memClear_def called_def clearIndexesCache_def Let_def
        MAX_NODES_def fullClear_def)

text \<open>
  Claim C8. With a terrain provider set, one pre-draw step returns normally, and it
  makes the calls of the full clear (\<open>terrain.clearCache()\<close>, then \<open>memClear\<close>)
  exactly when the created-node count exceeds \<open>MAX_NODES = 200\<close> and the distance
  accumulated since the last clear, this frame's travel included, exceeds the
  minimum distance; otherwise none of these calls is made and the counters keep
  accumulating. \<open>memClear\<close> leaves both the distance accumulator and the
  created-node count at zero.
\<close>

theorem globalPreDraw_memClear:
  "hasTerrain p \<longrightarrow>
     MAX_NODES = 200 \<and>
     (\<exists>p'. memClear p = Inr p' \<and> distBeforeMemClear p' = 0 \<and> createdNodesCount p' = 0) \<and>
     (\<exists>p'. globalPreDraw p e = Inr p' \<and>
        (if createdNodesCount p > 200
            \<and> distBeforeMemClear p + distance (prevCamEye p) e > minDistanceBeforeMemClear p
         then trace p' = trace p @ [CheckFly] @ fullClear
                  @ (if indexesCacheToRemoveCounter p > 600 then [DeleteIndexBuffers] else [])
              \<and> distBeforeMemClear p' = 0 \<and> createdNodesCount p' = 0
         else trace p' = trace p @ [CheckFly]
                  @ (if indexesCacheToRemoveCounter p > 600 then [DeleteIndexBuffers] else [])
              \<and> distBeforeMemClear p' = distBeforeMemClear p + distance (prevCamEye p) e
              \<and> createdNodesCount p' = createdNodesCount p))"
  using memClear_resets [of p] globalPreDraw_clears [of p e]
  by (simp add: MAX_NODES_def)

theorem globalPreDraw_memClear_witness:
  "globalPreDraw
     \<lparr>distBeforeMemClear = 5, prevCamEye = Vec3 0 0 0, createdNodesCount = 201,
      minDistanceBeforeMemClear = 0, indexesCacheToRemoveCounter = 0, hasTerrain = True,
      trace = []\<rparr> (Vec3 1 0 0)
   = Inr \<lparr>distBeforeMemClear = 0, prevCamEye = Vec3 1 0 0, createdNodesCount = 0,
          minDistanceBeforeMemClear = 0, indexesCacheToRemoveCounter = 0, hasTerrain = True,
          trace = CheckFly # fullClear\<rparr> \<and>
   globalPreDraw
     \<lparr>distBeforeMemClear = 5, prevCamEye = Vec3 0 0 0, createdNodesCount = 200,
      minDistanceBeforeMemClear = 0, indexesCacheToRemoveCounter = 0, hasTerrain = True,
      trace = []\<rparr> (Vec3 1 0 0)
   = Inr \<lparr>distBeforeMemClear = 6, prevCamEye = Vec3 1 0 0, createdNodesCount = 200,
          minDistanceBeforeMemClear = 0, indexesCacheToRemoveCounter = 0, hasTerrain = True,
          trace = [CheckFly]\<rparr>"
  using globalPreDraw_memClear
    [of "\<lparr>distBeforeMemClear = 5, prevCamEye = Vec3 0 0 0, createdNodesCount = 201,
          minDistanceBeforeMemClear = 0, indexesCacheToRemoveCounter = 0, hasTerrain = True,
          trace = []\<rparr>" "Vec3 1 0 0"]
    globalPreDraw_memClear
    [of "\<lparr>distBeforeMemClear = 5, prevCamEye = Vec3 0 0 0, createdNodesCount = 200,
          minDistanceBeforeMemClear = 0, indexesCacheToRemoveCounter = 0, hasTerrain = True,
          trace = []\<rparr>" "Vec3 1 0 0"]
  by (simp add: globalPreDraw_def memClear_def called_def Let_def MAX_NODES_def fullClear_def
        distance_def)


section \<open>Properties: the equal-zoom correction pass\<close>









section \<open>Properties: picking a point from a screen pixel\<close>

lemmas pick_defs =
  getCartesianFromPixelEllipsoid_def getCartesianFromPixelTerrain_def
  getLonLatFromPixelTerrain_def getDistanceFromPixel_def getDistanceFromPixelEllipsoid_def

lemma picking_returns:
  assumes "hasRenderer env"
  shows "\<exists>r. getCartesianFromPixelEllipsoid env px = Inr r"
    and "\<exists>r. getCartesianFromPixelTerrain env px = Inr r"
    and "\<exists>r. getLonLatFromPixelTerrain env px = Inr r"
  using assms by (auto simp: pick_defs Let_def split: option.splits)

lemma picking_misses:
  assumes "hasRenderer env" and "rayMisses env px"
  shows "getCartesianFromPixelEllipsoid env px = Inr None"
    and "getCartesianFromPixelTerrain env px = Inr None"
    and "getLonLatFromPixelTerrain env px = Inr None"
  using assms by (auto simp: rayMisses_def pick_defs)

lemma picking_hits:
  assumes "getDistanceFromPixel env px = Inr d" and "d \<noteq> 0"
  shows "getCartesianFromPixelTerrain env px
    = Inr (Some (addA (scaleTo (case direction px of
                                  Some v \<Rightarrow> v
                                | None \<Rightarrow> unproject env (px_x px) (px_y px)) d)
                      (camEye env)))"
  using assms by (simp add: getCartesianFromPixelTerrain_def)

text \<open>
  Claim C9, as the code has it. With a renderer and its camera attached, none of
  the three functions throws. \<open>getCartesianFromPixelEllipsoid\<close> returns \<open>undefined\<close>
  when the ray misses the ellipsoid; \<open>getCartesianFromPixelTerrain\<close> and
  \<open>getLonLatFromPixelTerrain\<close> return \<open>undefined\<close> when, in addition, the depth
  buffer gives no distance. When \<open>getDistanceFromPixel\<close> gives a non-zero distance,
  the cartesian result is the eye plus a direction scaled to that distance: the
  unprojected direction of the pixel when \<open>px\<close> carries no \<open>direction\<close>, and the
  direction \<open>px\<close> carries when it does.
\<close>

theorem pixel_picking:
  "hasRenderer env \<longrightarrow>
     (\<exists>r. getCartesianFromPixelEllipsoid env px = Inr r) \<and>
     (\<exists>r. getCartesianFromPixelTerrain env px = Inr r) \<and>
     (\<exists>r. getLonLatFromPixelTerrain env px = Inr r) \<and>
     (hitRay env (camEye env) (unproject env (px_x px) (px_y px)) = None \<longrightarrow>
        getCartesianFromPixelEllipsoid env px = Inr None) \<and>
     (rayMisses env px \<longrightarrow>
        getCartesianFromPixelTerrain env px = Inr None \<and>
        getLonLatFromPixelTerrain env px = Inr None) \<and>
     (\<forall>d. getDistanceFromPixel env px = Inr d \<and> d \<noteq> 0 \<longrightarrow>
        (direction px = None \<longrightarrow>
           getCartesianFromPixelTerrain env px
             = Inr (Some (addA (scaleTo (unproject env (px_x px) (px_y px)) d) (camEye env)))) \<and>
        (\<forall>v. direction px = Some v \<longrightarrow>
           getCartesianFromPixelTerrain env px
             = Inr (Some (addA (scaleTo v d) (camEye env)))))"
proof (intro impI conjI allI)
  assume r: "hasRenderer env"
  show "\<exists>r. getCartesianFromPixelEllipsoid env px = Inr r"
    and "\<exists>r. getCartesianFromPixelTerrain env px = Inr r"
    and "\<exists>r. getLonLatFromPixelTerrain env px = Inr r"
    using picking_returns [OF r] by blast+
  show "getCartesianFromPixelEllipsoid env px = Inr None"
    if "hitRay env (camEye env) (unproject env (px_x px) (px_y px)) = None"
    using r that by (simp add: getCartesianFromPixelEllipsoid_def)
  show "getCartesianFromPixelTerrain env px = Inr None"
    and "getLonLatFromPixelTerrain env px = Inr None" if "rayMisses env px"
    using picking_misses [OF r that] by blast+
  show "getCartesianFromPixelTerrain env px
      = Inr (Some (addA (scaleTo (unproject env (px_x px) (px_y px)) d) (camEye env)))"
    if "getDistanceFromPixel env px = Inr d \<and> d \<noteq> 0" and "direction px = None" for d
    using that picking_hits [of env px d] by simp
  show "getCartesianFromPixelTerrain env px = Inr (Some (addA (scaleTo v d) (camEye env)))"
    if "getDistanceFromPixel env px = Inr d \<and> d \<noteq> 0" and "direction px = Some v" for d v
    using that picking_hits [of env px d] by simp
qed

theorem pixel_picking_witness:
  "getCartesianFromPixelTerrain
     \<lparr>hasRenderer = True, camEye = Vec3 0 0 10, unproject = (\<lambda>a b. Vec3 0 0 (- 1)),
      hitRay = (\<lambda>origin dir. None), cartesianToLonLat = (\<lambda>v. LonLat 0 0),
      rendererDistance = (\<lambda>q. None)\<rparr>
     \<lparr>px_x = 3, px_y = 4, direction = None\<rparr> = Inr None \<and>
   getLonLatFromPixelTerrain
     \<lparr>hasRenderer = True, camEye = Vec3 0 0 10, unproject = (\<lambda>a b. Vec3 0 0 (- 1)),
      hitRay = (\<lambda>origin dir. None), cartesianToLonLat = (\<lambda>v. LonLat 0 0),
      rendererDistance = (\<lambda>q. None)\<rparr>
     \<lparr>px_x = 3, px_y = 4, direction = None\<rparr> = Inr None \<and>
   getCartesianFromPixelTerrain
     \<lparr>hasRenderer = True, camEye = Vec3 0 0 10, unproject = (\<lambda>a b. Vec3 0 0 (- 1)),
      hitRay = (\<lambda>origin dir. None), cartesianToLonLat = (\<lambda>v. LonLat 0 0),
      rendererDistance = (\<lambda>q. Some 4)\<rparr>
     \<lparr>px_x = 3, px_y = 4, direction = None\<rparr> = Inr (Some (Vec3 0 0 6))"
  using pixel_picking
    [of "\<lparr>hasRenderer = True, camEye = Vec3 0 0 10, unproject = (\<lambda>a b. Vec3 0 0 (- 1)),
          hitRay = (\<lambda>origin dir. None), cartesianToLonLat = (\<lambda>v. LonLat 0 0),
          rendererDistance = (\<lambda>q. None)\<rparr>"
        "\<lparr>px_x = 3, px_y = 4, direction = None\<rparr>"]
    pixel_picking
    [of "\<lparr>hasRenderer = True, camEye = Vec3 0 0 10, unproject = (\<lambda>a b. Vec3 0 0 (- 1)),
          hitRay = (\<lambda>origin dir. None), cartesianToLonLat = (\<lambda>v. LonLat 0 0),
          rendererDistance = (\<lambda>q. Some 4)\<rparr>"
        "\<lparr>px_x = 3, px_y = 4, direction = None\<rparr>"]
  by (simp add: rayMisses_def getDistanceFromPixel_def addA_def scaleTo_def)

text \<open>
  The result is not always along the unprojected direction of the pixel. Here the
  camera unprojects the pixel to \<open>(0, 1, 0)\<close> and that ray meets the ellipsoid at
  distance 2, in \<open>(0, 2, 0)\<close>; the input state still carries the direction
  \<open>(1, 0, 0)\<close>, and the result is \<open>(2, 0, 0)\<close>.
\<close>

theorem pixel_picking_direction_counterexample:
  "getDistanceFromPixel
     \<lparr>hasRenderer = True, camEye = Vec3 0 0 0, unproject = (\<lambda>a b. Vec3 0 1 0),
      hitRay = (\<lambda>origin dir. Some (addA (scaleTo dir 2) origin)),
      cartesianToLonLat = (\<lambda>v. LonLat 0 0), rendererDistance = (\<lambda>q. None)\<rparr>
     \<lparr>px_x = 3, px_y = 4, direction = Some (Vec3 1 0 0)\<rparr> = Inr 2 \<and>
   getCartesianFromPixelTerrain
     \<lparr>hasRenderer = True, camEye = Vec3 0 0 0, unproject = (\<lambda>a b. Vec3 0 1 0),
      hitRay = (\<lambda>origin dir. Some (addA (scaleTo dir 2) origin)),
      cartesianToLonLat = (\<lambda>v. LonLat 0 0), rendererDistance = (\<lambda>q. None)\<rparr>
     \<lparr>px_x = 3, px_y = 4, direction = Some (Vec3 1 0 0)\<rparr> = Inr (Some (Vec3 2 0 0)) \<and>
   addA (scaleTo (Vec3 0 1 0) 2) (Vec3 0 0 0) = Vec3 0 2 0"
  by (simp add: pick_defs addA_def scaleTo_def distance_def)


section \<open>Properties: the no-data test and the fallback to the ancestor\<close>
















section \<open>Properties: the transition-opacity state machine\<close>

lemma frameStep_invariant:
  "0 < rate \<Longrightarrow> fadeInvariant s \<Longrightarrow> fadeState (frameStep rate s) \<noteq> GONE \<Longrightarrow>
     fadeInvariant (frameStep rate s)"
  by (cases "fadeState s") (auto simp: fadeInvariant_def frameStep_def split: if_splits)

lemma applyEvent_invariant:
  assumes "0 < rate" and "\<forall>i s. m i = Some s \<longrightarrow> fadeInvariant s"
  shows "\<forall>i s. applyEvent rate e m i = Some s \<longrightarrow> fadeInvariant s"
proof (cases e)
  case (Enter k)
  then show ?thesis
    using assms(2)
    by (auto simp: enteredRendered_def fadeInvariant_def split: option.splits if_splits)
next
  case (Leave k)
  have "fadeInvariant (leftRendered s)" if "fadeInvariant s" for s
    using that by (cases "fadeState s") (auto simp: leftRendered_def fadeInvariant_def)
  then show ?thesis
    using Leave assms(2) by (auto split: option.splits if_splits)
next
  case Frame
  then show ?thesis
    using assms frameStep_invariant by (auto split: option.splits if_splits)
qed

lemma fadeRun_invariant:
  "0 < rate \<Longrightarrow> \<forall>i s. m i = Some s \<longrightarrow> fadeInvariant s \<Longrightarrow>
     \<forall>i s. fadeRun rate es m i = Some s \<longrightarrow> fadeInvariant s"
proof (induction es arbitrary: m)
  case Nil
  then show ?case by simp
next
  case (Cons e es)
  have "\<forall>i s. applyEvent rate e m i = Some s \<longrightarrow> fadeInvariant s"
    using applyEvent_invariant [OF Cons.prems] .
  then show ?case
    using Cons.IH [OF Cons.prems(1)] by simp
qed

lemma frameStep_direction:
  assumes "0 < rate" and "fadeInvariant s"
  shows "fadeState s = OPAQUE_IN \<longrightarrow>
      transitionOpacity s \<le> transitionOpacity (frameStep rate s) \<and>
      (fadeState (frameStep rate s) = OPAQUE_IN \<or>
       frameStep rate s = \<lparr>fadeState = STEADY, transitionOpacity = 1\<rparr>)"
    and "fadeState s = FADING_OUT \<longrightarrow>
      transitionOpacity (frameStep rate s) \<le> transitionOpacity s \<and>
      (fadeState (frameStep rate s) = FADING_OUT \<or>
       frameStep rate s = \<lparr>fadeState = GONE, transitionOpacity = 0\<rparr>)"
    and "fadeState s = STEADY \<longrightarrow> frameStep rate s = s"
    and "transitionOpacity s < transitionOpacity (frameStep rate s) \<longrightarrow> fadeState s = OPAQUE_IN"
    and "transitionOpacity (frameStep rate s) < transitionOpacity s \<longrightarrow> fadeState s = FADING_OUT"
  using assms
  by (cases "fadeState s"; auto simp: fadeInvariant_def frameStep_def split: if_splits)+

lemma frame_evicts:
  assumes "m i = Some s" and "fadeState s = FADING_OUT" and "transitionOpacity s \<le> rate"
  shows "applyEvent rate Frame m i = None" and "\<not> inFading (applyEvent rate Frame m) i"
  using assms by (simp_all add: frameStep_def inFading_def)

text \<open>
  Claim C4, on the state machine of the specification. In every run of enter, leave
  and frame events from the start, every segment the planet holds has its opacity in
  \<open>[0, 1]\<close>. In a frame, a fading-in segment's opacity does not decrease and the
  segment either stays fading in or becomes steady at 1; a fading-out segment's
  opacity does not increase and the segment either stays fading out or is gone at 0,
  and a segment that is gone is no longer held nor in the fading collection. The
  opacity rises in a frame only for a segment that is fading in and falls only for
  one that is fading out, and a segment is in one state at a time.
\<close>

theorem transition_opacity:
  "0 < rate \<longrightarrow>
     (\<forall>i s. fadeRun rate es Map.empty i = Some s \<longrightarrow>
        0 \<le> transitionOpacity s \<and> transitionOpacity s \<le> 1 \<and> fadeState s \<noteq> GONE) \<and>
     (fadeInvariant s \<longrightarrow>
        (fadeState s = OPAQUE_IN \<longrightarrow>
           transitionOpacity s \<le> transitionOpacity (frameStep rate s) \<and>
           (fadeState (frameStep rate s) = OPAQUE_IN \<or>
            frameStep rate s = \<lparr>fadeState = STEADY, transitionOpacity = 1\<rparr>)) \<and>
        (fadeState s = FADING_OUT \<longrightarrow>
           transitionOpacity (frameStep rate s) \<le> transitionOpacity s \<and>
           (fadeState (frameStep rate s) = FADING_OUT \<or>
            frameStep rate s = \<lparr>fadeState = GONE, transitionOpacity = 0\<rparr>)) \<and>
        (fadeState s = STEADY \<longrightarrow> frameStep rate s = s) \<and>
        (transitionOpacity s < transitionOpacity (frameStep rate s)
           \<longrightarrow> fadeState s = OPAQUE_IN) \<and>
        (transitionOpacity (frameStep rate s) < transitionOpacity s
           \<longrightarrow> fadeState s = FADING_OUT)) \<and>
     (m i = Some s \<and> fadeState s = FADING_OUT \<and> transitionOpacity s \<le> rate \<longrightarrow>
        applyEvent rate Frame m i = None \<and> \<not> inFading (applyEvent rate Frame m) i)"
proof (intro impI conjI)
  assume rate: "0 < rate"
  have "\<forall>i s. fadeRun rate es Map.empty i = Some s \<longrightarrow> fadeInvariant s"
    by (rule fadeRun_invariant [OF rate]) simp
  then show "\<forall>i s. fadeRun rate es Map.empty i = Some s \<longrightarrow>
      0 \<le> transitionOpacity s \<and> transitionOpacity s \<le> 1 \<and> fadeState s \<noteq> GONE"
    by (simp add: fadeInvariant_def)
  show "applyEvent rate Frame m i = None" and "\<not> inFading (applyEvent rate Frame m) i"
    if "m i = Some s \<and> fadeState s = FADING_OUT \<and> transitionOpacity s \<le> rate"
    using that frame_evicts [of m i s rate] by blast+
  assume inv: "fadeInvariant s"
  show "transitionOpacity s \<le> transitionOpacity (frameStep rate s)"
    and "fadeState (frameStep rate s) = OPAQUE_IN \<or>
      frameStep rate s = \<lparr>fadeState = STEADY, transitionOpacity = 1\<rparr>"
    if "fadeState s = OPAQUE_IN"
    using that frameStep_direction(1) [OF rate inv] by blast+
  show "transitionOpacity (frameStep rate s) \<le> transitionOpacity s"
    and "fadeState (frameStep rate s) = FADING_OUT \<or>
      frameStep rate s = \<lparr>fadeState = GONE, transitionOpacity = 0\<rparr>"
    if "fadeState s = FADING_OUT"
    using that frameStep_direction(2) [OF rate inv] by blast+
  show "frameStep rate s = s" if "fadeState s = STEADY"
    using that frameStep_direction(3) [OF rate inv] by blast
  show "fadeState s = OPAQUE_IN" if "transitionOpacity s < transitionOpacity (frameStep rate s)"
    using that frameStep_direction(4) [OF rate inv] by blast
  show "fadeState s = FADING_OUT" if "transitionOpacity (frameStep rate s) < transitionOpacity s"
    using that frameStep_direction(5) [OF rate inv] by blast
qed

theorem transition_opacity_witness:
  "fadeRun (2 / 5) [Enter 1, Frame, Frame, Frame, Leave 1, Frame] Map.empty 1
     = Some \<lparr>fadeState = FADING_OUT, transitionOpacity = 3 / 5\<rparr> \<and>
   frameStep (2 / 5) \<lparr>fadeState = OPAQUE_IN, transitionOpacity = 4 / 5\<rparr>
     = \<lparr>fadeState = STEADY, transitionOpacity = 1\<rparr> \<and>
   frameStep (2 / 5) \<lparr>fadeState = FADING_OUT, transitionOpacity = 1 / 5\<rparr>
     = \<lparr>fadeState = GONE, transitionOpacity = 0\<rparr> \<and>
   applyEvent (2 / 5) Frame [1 \<mapsto> \<lparr>fadeState = FADING_OUT, transitionOpacity = 1 / 5\<rparr>] 1 = None"
  using transition_opacity
    [of "2 / 5" "[Enter 1, Frame, Frame, Frame, Leave 1, Frame]"
        "\<lparr>fadeState = OPAQUE_IN, transitionOpacity = 4 / 5\<rparr>"
        "[1 \<mapsto> \<lparr>fadeState = OPAQUE_IN, transitionOpacity = 4 / 5\<rparr>]" 1]
    transition_opacity
    [of "2 / 5" "[Enter 1, Frame, Frame, Frame, Leave 1, Frame]"
        "\<lparr>fadeState = FADING_OUT, transitionOpacity = 1 / 5\<rparr>"
        "[1 \<mapsto> \<lparr>fadeState = FADING_OUT, transitionOpacity = 1 / 5\<rparr>]" 1]
  by (simp add: enteredRendered_def leftRendered_def frameStep_def fadeInvariant_def)

end
